theory Spec2Isabelle
  imports Complex_Main "HOL-Library.Sublist" "HOL-Library.Multiset"
begin

section \<open>Decimal arithmetic and Python conventions\<close>

text \<open>
  The risk code of TradeAgent computes with Python's \<^verbatim>\<open>decimal.Decimal\<close>. A Decimal is
  modelled as an exact rational number: sums, products, comparisons and quotients are the
  mathematical ones, and the rounding of the 28-digit arithmetic context is not modelled.
  What the context does signal is kept as a value: dividing by zero raises
  \<^verbatim>\<open>DivisionByZero\<close>, and \<^verbatim>\<open>0 / 0\<close> raises \<^verbatim>\<open>InvalidOperation\<close>.
\<close>

type_synonym decimal = rat

datatype py_error = DivisionByZero | InvalidOperation | TypeError

definition dec_div :: "decimal \<Rightarrow> decimal \<Rightarrow> py_error + decimal" where
  "dec_div a b =
     (if b = 0 then (if a = 0 then Inl InvalidOperation else Inl DivisionByZero)
      else Inr (a / b))"

text \<open>
  \<^verbatim>\<open>x or d\<close> on an \<^verbatim>\<open>Optional[Decimal]\<close>: both \<^verbatim>\<open>None\<close> and a zero Decimal are falsy.
\<close>

definition truthy :: "decimal option \<Rightarrow> bool" where
  "truthy x = (case x of None \<Rightarrow> False | Some v \<Rightarrow> v \<noteq> 0)"

definition py_or :: "decimal option \<Rightarrow> decimal \<Rightarrow> decimal" where
  "py_or x d = (case x of None \<Rightarrow> d | Some v \<Rightarrow> if v \<noteq> 0 then v else d)"

text \<open>\<^verbatim>\<open>int(q)\<close> on a Decimal truncates towards zero.\<close>

definition py_int :: "decimal \<Rightarrow> int" where
  "py_int q = (if 0 \<le> q then \<lfloor>q\<rfloor> else \<lceil>q\<rceil>)"

text \<open>\<^verbatim>\<open>q.quantize(Decimal("0.01"))\<close>: two decimal places, ties to the even neighbour.\<close>

definition round_half_even :: "decimal \<Rightarrow> int" where
  "round_half_even r =
     (let f = \<lfloor>r\<rfloor>; d = r - of_int f
      in if d < 1 / 2 then f
         else if 1 / 2 < d then f + 1
         else if even f then f else f + 1)"

definition quantize2 :: "decimal \<Rightarrow> decimal" where
  "quantize2 x = of_int (round_half_even (x * 100)) / 100"

section \<open>Domain models\<close>

text \<open>\<^verbatim>\<open>src/models/portfolio.py\<close>\<close>

record Position =
  symbol :: string
  quantity :: decimal
  avg_entry_price :: decimal
  current_price :: decimal
  market_value :: decimal
  unrealized_pnl :: decimal
  unrealized_pnl_pct :: decimal

record Portfolio =
  cash :: decimal
  portfolio_value :: decimal
  buying_power :: decimal
  equity :: decimal
  positions :: "Position list"

text \<open>The field constraints of the pydantic \<^verbatim>\<open>Portfolio\<close> model: all four amounts \<^verbatim>\<open>ge=0\<close>.\<close>

definition Portfolio_valid :: "Portfolio \<Rightarrow> bool" where
  "Portfolio_valid p =
     (0 \<le> cash p \<and> 0 \<le> portfolio_value p \<and> 0 \<le> buying_power p \<and> 0 \<le> equity p)"

text \<open>
  Modelled from the spec: the \<^verbatim>\<open>Signal\<close> class of \<^verbatim>\<open>src/models/trade.py\<close>, whose
  declaration is not among the sources. The fields are the ones the specification lists
  and the risk code reads: optional stop-loss and take-profit prices, a confidence, the
  strategy tag, and the two optional amounts of the rebalancing variant. The indicator
  fields (\<^verbatim>\<open>rsi\<close>, \<^verbatim>\<open>macd_histogram\<close>, \<^verbatim>\<open>volume_ratio\<close>) are only logged and are left out.
\<close>

record Signal =
  ticker :: string
  action :: string
  entry_price :: decimal
  stop_loss :: "decimal option"
  take_profit :: "decimal option"
  confidence :: decimal
  strategy :: string
  target_value :: "decimal option"
  current_value :: "decimal option"

section \<open>Circuit breaker\<close>

text \<open>\<^verbatim>\<open>src/core/risk_manager.py\<close>: the hard-coded limits.\<close>

definition MAX_POSITIONS :: nat where
  "MAX_POSITIONS = 5"

definition DAILY_LOSS_LIMIT_PCT :: decimal where
  "DAILY_LOSS_LIMIT_PCT = 3 / 100"

definition check_daily_loss_limit :: "decimal \<Rightarrow> decimal \<Rightarrow> py_error + bool" where
  "check_daily_loss_limit daily_pnl pv =
     (case dec_div daily_pnl pv of
        Inl e \<Rightarrow> Inl e
      | Inr daily_loss_pct \<Rightarrow>
          if daily_loss_pct \<le> - DAILY_LOSS_LIMIT_PCT then Inr True else Inr False)"

section \<open>Position sizing\<close>

text \<open>\<^verbatim>\<open>src/risk/position_sizer.py\<close>: the class constants of \<^verbatim>\<open>PositionSizer\<close>.\<close>

definition SIZER_MAX_POSITION_SIZE_PCT :: decimal where
  "SIZER_MAX_POSITION_SIZE_PCT = 15 / 100"

definition SIZER_MIN_POSITION_SIZE_PCT :: decimal where
  "SIZER_MIN_POSITION_SIZE_PCT = 3 / 100"

definition KELLY_FRACTION :: decimal where
  "KELLY_FRACTION = 1 / 2"

definition DEFAULT_WIN_RATE :: decimal where
  "DEFAULT_WIN_RATE = 55 / 100"

definition DEFAULT_AVG_WIN :: decimal where
  "DEFAULT_AVG_WIN = 8 / 100"

definition DEFAULT_AVG_LOSS :: decimal where
  "DEFAULT_AVG_LOSS = 3 / 100"

record PositionSizer =
  win_rate :: decimal
  avg_win :: decimal
  avg_loss :: decimal
  win_loss_ratio :: decimal

text \<open>\<^verbatim>\<open>PositionSizer.__init__\<close>: each argument defaults when it is \<^verbatim>\<open>None\<close> or zero.\<close>

definition PositionSizer_init ::
  "decimal option \<Rightarrow> decimal option \<Rightarrow> decimal option \<Rightarrow> PositionSizer" where
  "PositionSizer_init wr aw al =
     (let w = py_or wr DEFAULT_WIN_RATE;
          a = py_or aw DEFAULT_AVG_WIN;
          l = py_or al DEFAULT_AVG_LOSS
      in \<lparr>win_rate = w, avg_win = a, avg_loss = l,
          win_loss_ratio = (if 0 < l then a / l else 2)\<rparr>)"

text \<open>\<^verbatim>\<open>get_position_sizer\<close> before any recalibration: the sizer of the defaults.\<close>

definition get_position_sizer :: PositionSizer where
  "get_position_sizer = PositionSizer_init None None None"

definition calculate_kelly_fraction ::
  "PositionSizer \<Rightarrow> decimal \<Rightarrow> decimal \<Rightarrow> decimal \<Rightarrow> decimal" where
  "calculate_kelly_fraction sz conf stop_loss_pct take_profit_pct =
     (let p = conf * win_rate sz;
          q = 1 - p;
          b = (if 0 < stop_loss_pct then take_profit_pct / stop_loss_pct
               else win_loss_ratio sz);
          numerator = p * b - q;
          kelly = (if 0 < b then numerator / b else 0);
          kelly_adjusted = kelly * KELLY_FRACTION
      in max kelly_adjusted 0)"

text \<open>The clamp of \<^verbatim>\<open>calculate_position_size\<close> into the band from 3% to 15%.\<close>

definition band :: "decimal \<Rightarrow> decimal" where
  "band k = min (max k SIZER_MIN_POSITION_SIZE_PCT) SIZER_MAX_POSITION_SIZE_PCT"

text \<open>
  \<^verbatim>\<open>PositionSizer.calculate_position_size\<close>. The model returns the dollar value; the
  reasoning text is not built, but the quotient \<^verbatim>\<open>take_profit_pct/stop_loss_pct\<close> that
  its f-string evaluates is, since it raises when the stop-loss percentage is zero.
\<close>

definition PositionSizer_calculate_position_size ::
  "PositionSizer \<Rightarrow> Signal \<Rightarrow> Portfolio \<Rightarrow> py_error + decimal" where
  "PositionSizer_calculate_position_size sz signal portfolio =
     (let entry = entry_price signal;
          sl = py_or (stop_loss signal) (entry * (97 / 100));
          tp = py_or (take_profit signal) (entry * (108 / 100))
      in case dec_div \<bar>entry - sl\<bar> entry of
           Inl e \<Rightarrow> Inl e
         | Inr stop_loss_pct \<Rightarrow>
        (case dec_div \<bar>tp - entry\<bar> entry of
           Inl e \<Rightarrow> Inl e
         | Inr take_profit_pct \<Rightarrow>
        (let kelly = calculate_kelly_fraction sz (confidence signal) stop_loss_pct
                       take_profit_pct;
             position_size_pct =
               min (max kelly SIZER_MIN_POSITION_SIZE_PCT) SIZER_MAX_POSITION_SIZE_PCT;
             position_value = portfolio_value portfolio * position_size_pct;
             max_affordable = cash portfolio * (95 / 100);
             capped =
               (if max_affordable < position_value
                then (case dec_div max_affordable (portfolio_value portfolio) of
                        Inl e \<Rightarrow> Inl e
                      | Inr pct \<Rightarrow> Inr max_affordable)
                else Inr position_value)
         in case capped of
              Inl e \<Rightarrow> Inl e
            | Inr value \<Rightarrow>
                (case dec_div take_profit_pct stop_loss_pct of
                   Inl e \<Rightarrow> Inl e
                 | Inr rr \<Rightarrow> Inr value))))"

text \<open>\<^verbatim>\<open>PositionSizer.calculate_quantity\<close>: whole shares, and never fewer than one.\<close>

definition PositionSizer_calculate_quantity ::
  "PositionSizer \<Rightarrow> Signal \<Rightarrow> Portfolio \<Rightarrow> py_error + decimal" where
  "PositionSizer_calculate_quantity sz signal portfolio =
     (case PositionSizer_calculate_position_size sz signal portfolio of
        Inl e \<Rightarrow> Inl e
      | Inr position_value \<Rightarrow>
          (case dec_div position_value (entry_price signal) of
             Inl e \<Rightarrow> Inl e
           | Inr q \<Rightarrow>
               (let qty = (of_int (py_int q) :: decimal)
                in if qty < 1 then Inr 1 else Inr qty)))"

section \<open>Risk manager: sizing and validation\<close>

text \<open>
  \<^verbatim>\<open>risk_manager.calculate_position_size\<close>, with the sizer that \<^verbatim>\<open>get_position_sizer()\<close>
  returns as a parameter. In the rebalancing branch the debug f-string formats
  \<^verbatim>\<open>signal.current_value\<close> with \<^verbatim>\<open>:.2f\<close>, which raises \<^verbatim>\<open>TypeError\<close> on \<^verbatim>\<open>None\<close>.
\<close>

definition calculate_position_size ::
  "PositionSizer \<Rightarrow> Signal \<Rightarrow> Portfolio \<Rightarrow> py_error + decimal" where
  "calculate_position_size sz signal portfolio =
     (if strategy signal = ''defensive'' \<and> target_value signal \<noteq> None
      then (let target_dollar_amount =
                  \<bar>the (target_value signal) - py_or (current_value signal) 0\<bar>
            in case dec_div target_dollar_amount (entry_price signal) of
                 Inl e \<Rightarrow> Inl e
               | Inr shares \<Rightarrow>
                   (if current_value signal = None then Inl TypeError
                    else Inr (quantize2 shares)))
      else PositionSizer_calculate_quantity sz signal portfolio)"

datatype validation_reason =
    InvalidEntryPrice
  | StopLossNotBelowEntry
  | TakeProfitNotAboveEntry
  | InsufficientBuyingPower decimal
  | RiskRewardTooLow decimal
  | PassesAllRiskChecks

definition validate_signal_risk ::
  "PositionSizer \<Rightarrow> Signal \<Rightarrow> Portfolio \<Rightarrow> py_error + (bool \<times> validation_reason)" where
  "validate_signal_risk sz signal portfolio =
     (if entry_price signal \<le> 0 then Inr (False, InvalidEntryPrice)
      else if truthy (stop_loss signal) \<and> entry_price signal \<le> the (stop_loss signal)
        then Inr (False, StopLossNotBelowEntry)
      else if truthy (take_profit signal) \<and> the (take_profit signal) \<le> entry_price signal
        then Inr (False, TakeProfitNotAboveEntry)
      else case calculate_position_size sz signal portfolio of
             Inl e \<Rightarrow> Inl e
           | Inr position_size \<Rightarrow>
        (let required_capital = position_size * entry_price signal
         in if buying_power portfolio < required_capital
            then Inr (False, InsufficientBuyingPower required_capital)
            else if truthy (stop_loss signal) \<and> truthy (take_profit signal)
            then (let risk = entry_price signal - the (stop_loss signal);
                      reward = the (take_profit signal) - entry_price signal
                  in case dec_div reward risk of
                       Inl e \<Rightarrow> Inl e
                     | Inr risk_reward_ratio \<Rightarrow>
                         if risk_reward_ratio < 2
                         then Inr (False, RiskRewardTooLow risk_reward_ratio)
                         else Inr (True, PassesAllRiskChecks))
            else Inr (True, PassesAllRiskChecks)))"

section \<open>Correlation monitor\<close>

text \<open>
  \<^verbatim>\<open>src/risk/correlation_monitor.py\<close>. The ticker-to-sector table, as the source lists it;
  a ticker that is not in the table belongs to the sector \<^verbatim>\<open>Unknown\<close>.
\<close>

definition SECTOR_MAP :: "(string \<times> string) list" where
  "SECTOR_MAP =
     [(''AAPL'', ''Technology''), (''MSFT'', ''Technology''), (''GOOGL'', ''Technology''),
      (''META'', ''Technology''), (''NVDA'', ''Technology''), (''AMD'', ''Technology''),
      (''AVGO'', ''Technology''), (''NFLX'', ''Technology''),
      (''JPM'', ''Finance''), (''BAC'', ''Finance''), (''WFC'', ''Finance''),
      (''GS'', ''Finance''), (''MS'', ''Finance''),
      (''XOM'', ''Energy''), (''CVX'', ''Energy''), (''COP'', ''Energy''),
      (''LLY'', ''Healthcare''), (''JNJ'', ''Healthcare''), (''PFE'', ''Healthcare''),
      (''UNH'', ''Healthcare''),
      (''TSLA'', ''Consumer''), (''AMZN'', ''Consumer''), (''KO'', ''Consumer''),
      (''PEP'', ''Consumer''), (''MCD'', ''Consumer''),
      (''VTI'', ''Broad Market''), (''VGK'', ''International''), (''GLD'', ''Commodities''),
      (''SPY'', ''Broad Market''), (''QQQ'', ''Technology'')]"

definition sector_of :: "string \<Rightarrow> string" where
  "sector_of t = (case map_of SECTOR_MAP t of None \<Rightarrow> ''Unknown'' | Some s \<Rightarrow> s)"

text \<open>
  The thresholds are Python floats in the source; they and the correlation values are
  modelled as exact rationals, with \<^verbatim>\<open>NaN\<close> kept apart.
\<close>

definition MAX_CORRELATION :: decimal where
  "MAX_CORRELATION = 7 / 10"

definition MAX_SECTOR_ALLOCATION :: decimal where
  "MAX_SECTOR_ALLOCATION = 40 / 100"

definition MIN_POSITIONS_FOR_CORRELATION :: nat where
  "MIN_POSITIONS_FOR_CORRELATION = 2"

datatype reject_reason =
    SectorConcentration string decimal
  | HighCorrelation string decimal

text \<open>
  The dictionary \<^verbatim>\<open>sector_values\<close> keeps insertion order, which decides the sector that is
  named when several are over the limit: an association list updated in place.
\<close>

fun dict_add :: "(string \<times> decimal) list \<Rightarrow> string \<Rightarrow> decimal \<Rightarrow> (string \<times> decimal) list" where
  "dict_add [] k v = [(k, 0 + v)]"
| "dict_add ((k', x) # d) k v =
     (if k' = k then (k', x + v) # d else (k', x) # dict_add d k v)"

fun sector_totals :: "(string \<times> decimal) list \<Rightarrow> Position list \<Rightarrow> (string \<times> decimal) list" where
  "sector_totals d [] = d"
| "sector_totals d (pos # rest) =
     sector_totals (dict_add d (sector_of (symbol pos)) (market_value pos)) rest"

fun first_over_limit :: "decimal \<Rightarrow> (string \<times> decimal) list \<Rightarrow> reject_reason option" where
  "first_over_limit pv [] = None"
| "first_over_limit pv ((sector, v) # rest) =
     (let allocation = (if 0 < pv then v / pv else 0)
      in if MAX_SECTOR_ALLOCATION < allocation
         then Some (SectorConcentration sector allocation)
         else first_over_limit pv rest)"

definition check_sector_concentration ::
  "string \<Rightarrow> decimal \<Rightarrow> Position list \<Rightarrow> decimal \<Rightarrow> bool \<times> reject_reason option" where
  "check_sector_concentration new_ticker new_position_value current_positions pv =
     (let sector_values =
            dict_add (sector_totals [] current_positions) (sector_of new_ticker)
              new_position_value
      in case first_over_limit pv sector_values of
           Some r \<Rightarrow> (False, Some r)
         | None \<Rightarrow> (True, None))"

text \<open>
  The price-history provider and the Pearson coefficient of pandas are outside the
  program: a fetch either lets an exception escape, returns \<^verbatim>\<open>None\<close>, or returns a series
  of dated closes; the coefficient of an aligned pair of series is a float, possibly
  \<^verbatim>\<open>NaN\<close>, unless the computation raises.
\<close>

datatype fetch_result = FetchRaises | NoHistory | History "(nat \<times> decimal) list"

datatype float_val = NaN | Fl decimal

record price_env =
  get_price_history :: "string \<Rightarrow> fetch_result"
  pearson :: "(decimal \<times> decimal) list \<Rightarrow> float_val option"

text \<open>\<^verbatim>\<open>pd.concat([series1, series2], axis=1, join="inner")\<close>: the rows of the common dates.\<close>

definition aligned :: "(nat \<times> decimal) list \<Rightarrow> (nat \<times> decimal) list \<Rightarrow> (decimal \<times> decimal) list" where
  "aligned series1 series2 =
     concat (map (\<lambda>(d1, v1). map (\<lambda>(d2, v2). (v1, v2)) (filter (\<lambda>(d2, v2). d2 = d1) series2))
               series1)"

definition calculate_correlation ::
  "price_env \<Rightarrow> (nat \<times> decimal) list \<Rightarrow> (nat \<times> decimal) list \<Rightarrow> float_val option" where
  "calculate_correlation env series1 series2 =
     (let a = aligned series1 series2
      in if length a < 30 then None else pearson env a)"

fun correlation_loop ::
  "price_env \<Rightarrow> (nat \<times> decimal) list \<Rightarrow> Position list \<Rightarrow> bool \<times> reject_reason option" where
  "correlation_loop env new_prices [] = (True, None)"
| "correlation_loop env new_prices (pos # rest) =
     (case get_price_history env (symbol pos) of
        FetchRaises \<Rightarrow> (True, None)
      | NoHistory \<Rightarrow> correlation_loop env new_prices rest
      | History existing_prices \<Rightarrow>
          if length existing_prices < 30 then correlation_loop env new_prices rest
          else (case calculate_correlation env new_prices existing_prices of
                  None \<Rightarrow> correlation_loop env new_prices rest
                | Some NaN \<Rightarrow> correlation_loop env new_prices rest
                | Some (Fl c) \<Rightarrow>
                    if MAX_CORRELATION < \<bar>c\<bar>
                    then (False, Some (HighCorrelation (symbol pos) c))
                    else correlation_loop env new_prices rest))"

definition check_correlation ::
  "price_env \<Rightarrow> string \<Rightarrow> Position list \<Rightarrow> bool \<times> reject_reason option" where
  "check_correlation env new_ticker current_positions =
     (case get_price_history env new_ticker of
        FetchRaises \<Rightarrow> (True, None)
      | NoHistory \<Rightarrow> (True, None)
      | History new_prices \<Rightarrow>
          if length new_prices < 30 then (True, None)
          else correlation_loop env new_prices current_positions)"

definition check_new_signal ::
  "price_env \<Rightarrow> Signal \<Rightarrow> Position list \<Rightarrow> decimal \<Rightarrow> bool \<times> reject_reason option" where
  "check_new_signal env signal current_positions pv =
     (if length current_positions = 0 then (True, None)
      else case check_sector_concentration (ticker signal) (entry_price signal * 10)
                  current_positions pv of
             (False, sector_reason) \<Rightarrow> (False, sector_reason)
           | (True, _) \<Rightarrow>
               if MIN_POSITIONS_FOR_CORRELATION \<le> length current_positions
               then (case check_correlation env (ticker signal) current_positions of
                       (False, corr_reason) \<Rightarrow> (False, corr_reason)
                     | (True, _) \<Rightarrow> (True, None))
               else (True, None))"

section \<open>Risk filter\<close>

text \<open>
  \<^verbatim>\<open>filter_signals_by_risk\<close>. The monitor is a parameter: a check that answers for one
  signal and may change the monitor's own state (its price cache). The caller's list is
  sorted in place by \<^verbatim>\<open>signals.sort(key=..., reverse=True)\<close>, a stable sort that keeps equal
  keys in their order; the model returns the approved signals, the caller's list as the
  call leaves it, and the monitor's state.
\<close>

definition defensive_symbols :: "string set" where
  "defensive_symbols = {''VTI'', ''VGK'', ''GLD''}"

definition momentum_positions :: "Position list \<Rightarrow> Position list" where
  "momentum_positions current_positions =
     filter (\<lambda>p. symbol p \<notin> defensive_symbols) current_positions"

definition sort_by_confidence :: "Signal list \<Rightarrow> Signal list" where
  "sort_by_confidence signals = sort_key (\<lambda>s. - confidence s) signals"

fun approve_loop ::
  "('m \<Rightarrow> Signal \<Rightarrow> (bool \<times> reject_reason option) \<times> 'm) \<Rightarrow> int \<Rightarrow> 'm \<Rightarrow> Signal list
     \<Rightarrow> Signal list \<Rightarrow> Signal list \<times> 'm" where
  "approve_loop check available_slots m [] approved_signals = (approved_signals, m)"
| "approve_loop check available_slots m (signal # rest) approved_signals =
     (if available_slots \<le> int (length approved_signals) then (approved_signals, m)
      else case check m signal of
             ((True, reason), m') \<Rightarrow>
               approve_loop check available_slots m' rest (approved_signals @ [signal])
           | ((False, reason), m') \<Rightarrow>
               approve_loop check available_slots m' rest approved_signals)"

definition filter_signals_by_risk ::
  "('m \<Rightarrow> Signal \<Rightarrow> Position list \<Rightarrow> decimal \<Rightarrow> (bool \<times> reject_reason option) \<times> 'm) \<Rightarrow> 'm
     \<Rightarrow> Signal list \<Rightarrow> Portfolio \<Rightarrow> Position list \<Rightarrow> Signal list \<times> Signal list \<times> 'm" where
  "filter_signals_by_risk check_signal m signals portfolio current_positions =
     (let mp = momentum_positions current_positions
      in if MAX_POSITIONS \<le> length mp then ([], signals, m)
         else (let sorted_signals = sort_by_confidence signals;
                   available_slots = int MAX_POSITIONS - int (length mp);
                   (approved, m') =
                     approve_loop
                       (\<lambda>st s. check_signal st s current_positions (portfolio_value portfolio))
                       available_slots m sorted_signals []
               in (approved, sorted_signals, m')))"

text \<open>The monitor of the source, whose answer depends on the price environment only.\<close>

definition monitor_check ::
  "price_env \<Rightarrow> unit \<Rightarrow> Signal \<Rightarrow> Position list \<Rightarrow> decimal
     \<Rightarrow> (bool \<times> reject_reason option) \<times> unit" where
  "monitor_check env m signal current_positions pv =
     (check_new_signal env signal current_positions pv, m)"

section \<open>A correlation check that cannot be evaluated\<close>

text \<open>
  The situations in which the correlation of a candidate cannot be evaluated: its own
  price history cannot be fetched, is missing or has fewer than 30 observations; or, for
  every held position, the position's history cannot be fetched, is missing or short,
  or the two series share fewer than 30 dates or the coefficient cannot be computed.
\<close>

definition pair_unevaluable :: "price_env \<Rightarrow> (nat \<times> decimal) list \<Rightarrow> Position \<Rightarrow> bool" where
  "pair_unevaluable env new_prices pos =
     (case get_price_history env (symbol pos) of
        FetchRaises \<Rightarrow> True
      | NoHistory \<Rightarrow> True
      | History existing_prices \<Rightarrow>
          length existing_prices < 30
          \<or> calculate_correlation env new_prices existing_prices = None)"

definition cannot_evaluate :: "price_env \<Rightarrow> string \<Rightarrow> Position list \<Rightarrow> bool" where
  "cannot_evaluate env new_ticker current_positions =
     (case get_price_history env new_ticker of
        FetchRaises \<Rightarrow> True
      | NoHistory \<Rightarrow> True
      | History new_prices \<Rightarrow>
          length new_prices < 30 \<or> list_all (pair_unevaluable env new_prices) current_positions)"

section \<open>Orchestration cycle\<close>

text \<open>
  \<^verbatim>\<open>daily_trading_loop\<close> of \<^verbatim>\<open>src/main.py\<close>. Its collaborators (market clock, broker,
  signal producers, exit rules) are outside the program, so one cycle is run against a
  record of what they answer in that cycle; the result lists, in order, the orders the
  broker accepted, the positions the cycle asks it to close, and the analysis step.
  Logging and the weekly report are left out. An exception inside the \<^verbatim>\<open>try\<close> of
  one order (a sizing error, or the broker refusing the order) is caught there and the
  loop goes on with the next signal.
\<close>

datatype broker_event =
    SubmitOrder string decimal string "decimal option" "decimal option"
  | ClosePosition string
  | AnalyzePerformance

datatype cycle_result = Skipped | Completed "broker_event list"

record cycle_env =
  market_open :: bool
  account :: Portfolio
  broker_positions :: "Position list"
  rebalance_due :: bool
  rebalance_signals :: "Signal list"
  momentum_scan :: "Signal list"
  llm_features :: bool
  news_scan :: "Signal list"
  prices :: price_env
  sizer :: PositionSizer
  order_accepted :: "string \<Rightarrow> bool"
  exit_due :: "string \<Rightarrow> bool"

definition lower :: "string \<Rightarrow> string" where
  "lower a =
     map (\<lambda>c. let n = (of_char c :: nat) in if 65 \<le> n \<and> n \<le> 90 then char_of (n + 32) else c) a"

fun execute_rebalance :: "cycle_env \<Rightarrow> Signal list \<Rightarrow> broker_event list" where
  "execute_rebalance env [] = []"
| "execute_rebalance env (signal # rest) =
     (case calculate_position_size (sizer env) signal (account env) of
        Inl e \<Rightarrow> execute_rebalance env rest
      | Inr qty \<Rightarrow>
          if order_accepted env (ticker signal)
          then SubmitOrder (ticker signal) qty (lower (action signal)) None None
                 # execute_rebalance env rest
          else execute_rebalance env rest)"

fun execute_entries :: "cycle_env \<Rightarrow> Signal list \<Rightarrow> broker_event list" where
  "execute_entries env [] = []"
| "execute_entries env (signal # rest) =
     (case calculate_position_size (sizer env) signal (account env) of
        Inl e \<Rightarrow> execute_entries env rest
      | Inr qty \<Rightarrow>
          if order_accepted env (ticker signal)
          then SubmitOrder (ticker signal) qty ''buy'' (stop_loss signal) (take_profit signal)
                 # execute_entries env rest
          else execute_entries env rest)"

fun check_exits :: "cycle_env \<Rightarrow> Position list \<Rightarrow> broker_event list" where
  "check_exits env [] = []"
| "check_exits env (position # rest) =
     (if symbol position \<in> defensive_symbols then check_exits env rest
      else if exit_due env (symbol position)
      then ClosePosition (symbol position) # check_exits env rest
      else check_exits env rest)"

definition daily_trading_loop :: "bool \<Rightarrow> cycle_env \<Rightarrow> cycle_result" where
  "daily_trading_loop allow_premarket env =
     (if \<not> market_open env \<and> \<not> allow_premarket then Skipped
      else (let portfolio = account env;
                current = broker_positions env;
                rebalance_events =
                  (if rebalance_due env then execute_rebalance env (rebalance_signals env)
                   else []);
                momentum_signals =
                  momentum_scan env @ (if llm_features env then news_scan env else []);
                (filtered_signals, sorted_signals, m) =
                  filter_signals_by_risk (monitor_check (prices env)) () momentum_signals
                    portfolio current;
                entry_events = execute_entries env filtered_signals;
                exit_events = check_exits env current
            in Completed (rebalance_events @ entry_events @ exit_events
                           @ [AnalyzePerformance])))"

text \<open>The entry orders among the events of a cycle: every order submitted to the broker.\<close>

fun is_entry_order :: "broker_event \<Rightarrow> bool" where
  "is_entry_order (SubmitOrder tk qty side sl tp) = True"
| "is_entry_order (ClosePosition tk) = False"
| "is_entry_order AnalyzePerformance = False"

definition entry_orders :: "cycle_result \<Rightarrow> broker_event list" where
  "entry_orders r = (case r of Skipped \<Rightarrow> [] | Completed evs \<Rightarrow> filter is_entry_order evs)"

section \<open>The sizing rule as the specification words it\<close>

text \<open>
  The specification's Kelly computation, written from its sentences and kept apart from
  the code above, to be compared with it: win probability \<open>p\<close> is confidence times the
  historical win rate, \<open>q = 1 - p\<close>; the odds \<open>b\<close> are take-profit percentage over
  stop-loss percentage, or the historical win/loss ratio when either leg is absent or
  zero; the raw fraction \<open>(p b - q) / b\<close> is clamped at zero, halved, and clamped into the
  band from 3% to 15%; the dollar size is that fraction of the portfolio value, capped at
  95% of the cash.
\<close>

definition spec_odds :: "decimal \<Rightarrow> decimal option \<Rightarrow> decimal option \<Rightarrow> decimal" where
  "spec_odds historical stop_loss_pct take_profit_pct =
     (case (stop_loss_pct, take_profit_pct) of
        (Some s, Some t) \<Rightarrow> if s = 0 \<or> t = 0 then historical else t / s
      | _ \<Rightarrow> historical)"

definition spec_fraction ::
  "decimal \<Rightarrow> decimal \<Rightarrow> decimal \<Rightarrow> decimal option \<Rightarrow> decimal option \<Rightarrow> decimal" where
  "spec_fraction wr historical conf stop_loss_pct take_profit_pct =
     (let p = conf * wr;
          q = 1 - p;
          b = spec_odds historical stop_loss_pct take_profit_pct;
          f = max ((p * b - q) / b) 0;
          half = f * (1 / 2)
      in min (max half (3 / 100)) (15 / 100))"

definition spec_dollar_size :: "decimal \<Rightarrow> decimal \<Rightarrow> decimal \<Rightarrow> decimal" where
  "spec_dollar_size pv available_cash fraction = min (pv * fraction) (available_cash * (95 / 100))"

text \<open>The percentage legs of a signal: the distance of each price from the entry price.\<close>

definition leg_pct :: "decimal \<Rightarrow> decimal option \<Rightarrow> decimal option" where
  "leg_pct entry price = (case price of None \<Rightarrow> None | Some x \<Rightarrow> Some (\<bar>x - entry\<bar> / entry))"

section \<open>Concrete inputs\<close>

text \<open>
  The portfolio of the repository's test fixtures, and small builders for the signals and
  positions at which the model is evaluated below.
\<close>

definition sample_portfolio :: Portfolio where
  "sample_portfolio =
     \<lparr>cash = 5000, portfolio_value = 10000, buying_power = 5000, equity = 5000,
      positions = []\<rparr>"

definition momentum_signal :: "string \<Rightarrow> decimal \<Rightarrow> decimal \<Rightarrow> Signal" where
  "momentum_signal t price conf =
     \<lparr>ticker = t, action = ''BUY'', entry_price = price, stop_loss = None,
      take_profit = None, confidence = conf, strategy = ''momentum'',
      target_value = None, current_value = None\<rparr>"

definition held :: "string \<Rightarrow> decimal \<Rightarrow> Position" where
  "held s v =
     \<lparr>symbol = s, quantity = 10, avg_entry_price = v / 10, current_price = v / 10,
      market_value = v, unrealized_pnl = 0, unrealized_pnl_pct = 0\<rparr>"

definition no_prices :: price_env where
  "no_prices = \<lparr>get_price_history = (\<lambda>t. NoHistory), pearson = (\<lambda>a. None)\<rparr>"

definition six_active :: "Position list" where
  "six_active =
     [held ''NVDA'' 1000, held ''AMD'' 1000, held ''JPM'' 1000, held ''XOM'' 1000,
      held ''KO'' 1000, held ''PFE'' 1000]"

definition core_and_one :: "Position list" where
  "core_and_one = [held ''VTI'' 1000, held ''JPM'' 1000]"

definition three_signals :: "Signal list" where
  "three_signals =
     [momentum_signal ''AAPL'' 150 (60 / 100), momentum_signal ''MSFT'' 350 (90 / 100),
      momentum_signal ''GOOGL'' 140 (60 / 100)]"

definition low_buying_power :: Portfolio where
  "low_buying_power = sample_portfolio\<lparr>buying_power := 500\<rparr>"

definition stop_only_signal :: Signal where
  "stop_only_signal = (momentum_signal ''AAPL'' 150 (75 / 100))\<lparr>stop_loss := Some (285 / 2)\<rparr>"

definition flat_target_signal :: Signal where
  "flat_target_signal = (momentum_signal ''AAPL'' 150 1)\<lparr>take_profit := Some 150\<rparr>"

definition zero_target_signal :: Signal where
  "zero_target_signal = (momentum_signal ''AAPL'' 150 (75 / 100))\<lparr>take_profit := Some 0\<rparr>"

text \<open>Price environments: a flat series of daily closes, by first day and length.\<close>

definition daily_closes :: "nat \<Rightarrow> nat \<Rightarrow> (nat \<times> decimal) list" where
  "daily_closes first n = map (\<lambda>d. (d, 100)) [first..<first + n]"

definition short_history :: price_env where
  "short_history =
     \<lparr>get_price_history = (\<lambda>t. History (daily_closes 100 29)),
      pearson = (\<lambda>a. Some (Fl (1 / 10)))\<rparr>"

definition little_overlap :: price_env where
  "little_overlap =
     \<lparr>get_price_history =
        (\<lambda>t. if t = ''AAPL'' then History (daily_closes 100 30) else History (daily_closes 120 30)),
      pearson = (\<lambda>a. Some (Fl (9 / 10)))\<rparr>"

definition full_history :: price_env where
  "full_history =
     \<lparr>get_price_history = (\<lambda>t. History (daily_closes 100 30)),
      pearson = (\<lambda>a. Some (Fl (1 / 10)))\<rparr>"

definition two_held :: "Position list" where
  "two_held = [held ''JPM'' 1000, held ''XOM'' 1000]"

definition tech_heavy :: "Position list" where
  "tech_heavy = [held ''NVDA'' 1850, held ''AAPL'' 3900]"

text \<open>
  A cycle on a day whose realized loss has passed the limit: the market is open, a
  rebalancing order is due, the momentum scan proposes one signal, the broker accepts
  every order and no exit rule fires.
\<close>

definition rebalance_buy :: Signal where
  "rebalance_buy =
     \<lparr>ticker = ''VTI'', action = ''BUY'', entry_price = 250, stop_loss = None,
      take_profit = None, confidence = 1, strategy = ''defensive'',
      target_value = Some 2500, current_value = Some 2000\<rparr>"

definition losing_day :: cycle_env where
  "losing_day =
     \<lparr>market_open = True, account = sample_portfolio,
      broker_positions = [held ''JPM'' 1000],
      rebalance_due = True, rebalance_signals = [rebalance_buy],
      momentum_scan = [momentum_signal ''AAPL'' 150 (75 / 100)],
      llm_features = False, news_scan = [],
      prices = no_prices, sizer = get_position_sizer,
      order_accepted = (\<lambda>t. True), exit_due = (\<lambda>t. False)\<rparr>"

section \<open>Properties of the circuit breaker\<close>

lemma check_daily_loss_limit_nonzero:
  "pv \<noteq> 0 \<Longrightarrow>
     check_daily_loss_limit daily_pnl pv = Inr (daily_pnl / pv \<le> - (3 / 100))"
  by (simp add: check_daily_loss_limit_def dec_div_def DAILY_LOSS_LIMIT_PCT_def)

text \<open>
  Claim C6. For every daily P&L and every portfolio value above zero,
  \<^verbatim>\<open>check_daily_loss_limit\<close> returns, and returns \<^verbatim>\<open>True\<close> exactly when
  \<^verbatim>\<open>daily_pnl / portfolio_value\<close> is at most -0.03. It returns \<^verbatim>\<open>True\<close> for
  (-300, 10000), exactly at the threshold, and \<^verbatim>\<open>False\<close> for (-299.99, 10000).
\<close>

theorem check_daily_loss_limit_threshold:
  "(0 < pv \<longrightarrow>
      check_daily_loss_limit daily_pnl pv = Inr (daily_pnl / pv \<le> - (3 / 100)))
   \<and> check_daily_loss_limit (- 300) 10000 = Inr True
   \<and> check_daily_loss_limit (- (29999 / 100)) 10000 = Inr False"
  by (simp add: check_daily_loss_limit_nonzero)

theorem check_daily_loss_limit_threshold_witness:
  "(0::rat) < 20000
   \<and> check_daily_loss_limit (- 700) 20000 = Inr True
   \<and> check_daily_loss_limit (- 500) 20000 = Inr False"
  using check_daily_loss_limit_threshold [of 20000 "- 700"]
        check_daily_loss_limit_threshold [of 20000 "- 500"]
  by simp

text \<open>
  Claim C9. \<^verbatim>\<open>check_daily_loss_limit\<close> is not total on the portfolios the data model
  admits: the model only asks for \<^verbatim>\<open>portfolio_value >= 0\<close>, and at
  \<^verbatim>\<open>portfolio_value = 0\<close> the unguarded division raises instead of returning a bool.
  On a valid portfolio the function returns a bool exactly when the value is above zero.
\<close>

theorem check_daily_loss_limit_partial:
  "(\<exists>e. check_daily_loss_limit daily_pnl 0 = Inl e)
   \<and> (Portfolio_valid p \<longrightarrow>
        ((\<exists>b. check_daily_loss_limit daily_pnl (portfolio_value p) = Inr b)
           \<longleftrightarrow> 0 < portfolio_value p))"
  by (auto simp: check_daily_loss_limit_def dec_div_def Portfolio_valid_def)

theorem check_daily_loss_limit_partial_witness:
  "Portfolio_valid \<lparr>cash = 0, portfolio_value = 0, buying_power = 0, equity = 0,
                     positions = []\<rparr>
   \<and> \<not> (\<exists>b. check_daily_loss_limit (- 10) 0 = Inr b)
   \<and> Portfolio_valid \<lparr>cash = 5000, portfolio_value = 10000, buying_power = 5000,
                       equity = 5000, positions = []\<rparr>
   \<and> (\<exists>b. check_daily_loss_limit (- 10) 10000 = Inr b)"
  using check_daily_loss_limit_partial
          [of "- 10" "\<lparr>cash = 0, portfolio_value = 0, buying_power = 0, equity = 0,
                        positions = []\<rparr>"]
        check_daily_loss_limit_partial
          [of "- 10" "\<lparr>cash = 5000, portfolio_value = 10000, buying_power = 5000,
                        equity = 5000, positions = []\<rparr>"]
  by (simp add: Portfolio_valid_def)

section \<open>Properties of the risk filter\<close>

lemmas filter_eval =
  filter_signals_by_risk_def momentum_positions_def defensive_symbols_def held_def
  MAX_POSITIONS_def sort_by_confidence_def momentum_signal_def monitor_check_def
  check_new_signal_def check_sector_concentration_def sector_of_def SECTOR_MAP_def
  MAX_SECTOR_ALLOCATION_def sample_portfolio_def MIN_POSITIONS_FOR_CORRELATION_def
  check_correlation_def no_prices_def six_active_def core_and_one_def three_signals_def
  Let_def

lemma approve_loop_shape:
  "\<exists>ys. fst (approve_loop check slots m xs acc) = acc @ ys \<and> subseq ys xs"
proof (induction xs arbitrary: m acc)
  case Nil
  then show ?case by simp
next
  case (Cons x xs)
  show ?case
  proof (cases "slots \<le> int (length acc)")
    case True
    then show ?thesis by simp
  next
    case False
    obtain ok r m' where c: "check m x = ((ok, r), m')"
      by (metis surj_pair)
    show ?thesis
    proof (cases ok)
      case True
      from Cons.IH [of m' "acc @ [x]"] obtain ys where
        "fst (approve_loop check slots m' xs (acc @ [x])) = (acc @ [x]) @ ys" "subseq ys xs"
        by blast
      then have "fst (approve_loop check slots m (x # xs) acc) = acc @ (x # ys) \<and> subseq (x # ys) (x # xs)"
        using False c True by simp
      then show ?thesis by blast
    next
      case no: False
      from Cons.IH [of m' acc] obtain ys where
        "fst (approve_loop check slots m' xs acc) = acc @ ys" "subseq ys xs"
        by blast
      then have "fst (approve_loop check slots m (x # xs) acc) = acc @ ys \<and> subseq ys (x # xs)"
        using False c no by (simp add: list_emb_Cons)
      then show ?thesis by blast
    qed
  qed
qed

lemma approve_loop_length:
  "int (length (fst (approve_loop check slots m xs acc))) \<le> max slots (int (length acc))"
proof (induction xs arbitrary: m acc)
  case Nil
  then show ?case by simp
next
  case (Cons x xs)
  show ?case
  proof (cases "slots \<le> int (length acc)")
    case True
    then show ?thesis by simp
  next
    case False
    obtain ok r m' where c: "check m x = ((ok, r), m')"
      by (metis surj_pair)
    show ?thesis
    proof (cases ok)
      case True
      have "int (length (fst (approve_loop check slots m' xs (acc @ [x])))) \<le> max slots (int (length (acc @ [x])))"
        by (rule Cons.IH)
      then show ?thesis using False c True by simp
    next
      case no: False
      have "int (length (fst (approve_loop check slots m' xs acc))) \<le> max slots (int (length acc))"
        by (rule Cons.IH)
      then show ?thesis using False c no by simp
    qed
  qed
qed

lemma sorted_wrt_subseq:
  "subseq xs ys \<Longrightarrow> sorted_wrt P ys \<Longrightarrow> sorted_wrt P xs"
proof (induction rule: list_emb.induct)
  case (list_emb_Nil ys)
  then show ?case by simp
next
  case (list_emb_Cons xs ys y)
  then show ?case by simp
next
  case (list_emb_Cons2 x y xs ys)
  from list_emb_Cons2.hyps(2) have "set xs \<subseteq> set ys"
    by (induction rule: list_emb.induct) auto
  with list_emb_Cons2 show ?case by auto
qed

lemma sort_by_confidence_sorted:
  "sorted_wrt (\<lambda>a b. confidence b \<le> confidence a) (sort_by_confidence xs)"
proof -
  have "sorted (map (\<lambda>s. - confidence s) (sort_key (\<lambda>s. - confidence s) xs))"
    by (rule sorted_sort_key)
  then show ?thesis
    by (simp add: sort_by_confidence_def sorted_map)
qed


lemma approve_loop_subseq:
  "subseq (fst (approve_loop check slots m xs [])) xs"
proof -
  from approve_loop_shape [of check slots m xs "[]"] obtain ys where
    "fst (approve_loop check slots m xs []) = [] @ ys" and "subseq ys xs"
    by (elim exE conjE)
  then show ?thesis by simp
qed

lemma filter_cap_reached:
  "MAX_POSITIONS \<le> length (momentum_positions ps) \<Longrightarrow>
     filter_signals_by_risk check m signals pf ps = ([], signals, m)"
  by (simp add: filter_signals_by_risk_def)

lemma filter_below_cap:
  assumes "length (momentum_positions ps) < MAX_POSITIONS"
  shows "filter_signals_by_risk check m signals pf ps =
           (fst (approve_loop (\<lambda>st s. check st s ps (portfolio_value pf))
                   (int MAX_POSITIONS - int (length (momentum_positions ps))) m
                   (sort_by_confidence signals) []),
            sort_by_confidence signals,
            snd (approve_loop (\<lambda>st s. check st s ps (portfolio_value pf))
                   (int MAX_POSITIONS - int (length (momentum_positions ps))) m
                   (sort_by_confidence signals) []))"
  using assms by (simp add: filter_signals_by_risk_def Let_def split_beta)

lemma filter_approved_subseq:
  "subseq (fst (filter_signals_by_risk check m signals pf ps)) (sort_by_confidence signals)"
proof (cases "MAX_POSITIONS \<le> length (momentum_positions ps)")
  case True
  then show ?thesis by (simp add: filter_cap_reached)
next
  case False
  then have lt: "length (momentum_positions ps) < MAX_POSITIONS" by simp
  show ?thesis
    by (simp add: filter_below_cap [OF lt] approve_loop_subseq)
qed

text \<open>
  Claim C7. Whatever the monitor answers, the approved list is in order of non-increasing
  confidence, and the approved signals of any one confidence value appear in the order
  they had in the input list (the sort is stable).
\<close>

theorem filter_signals_sorted_stable:
  "sorted_wrt (\<lambda>a b. confidence b \<le> confidence a)
     (fst (filter_signals_by_risk check m signals pf ps))
   \<and> (\<forall>c. subseq (filter (\<lambda>s. confidence s = c)
                     (fst (filter_signals_by_risk check m signals pf ps)))
                  (filter (\<lambda>s. confidence s = c) signals))"
proof
  show "sorted_wrt (\<lambda>a b. confidence b \<le> confidence a)
          (fst (filter_signals_by_risk check m signals pf ps))"
    using filter_approved_subseq sort_by_confidence_sorted by (rule sorted_wrt_subseq)
next
  show "\<forall>c. subseq (filter (\<lambda>s. confidence s = c)
                     (fst (filter_signals_by_risk check m signals pf ps)))
                  (filter (\<lambda>s. confidence s = c) signals)"
  proof
    fix c
    have "subseq (filter (\<lambda>s. confidence s = c)
                    (fst (filter_signals_by_risk check m signals pf ps)))
                 (filter (\<lambda>s. confidence s = c) (sort_by_confidence signals))"
      using filter_approved_subseq by (rule subseq_filter)
    moreover have "filter (\<lambda>s. confidence s = c) (sort_by_confidence signals)
                     = filter (\<lambda>s. confidence s = c) signals"
      using sort_key_stable [of "\<lambda>s. - confidence s" "- c" signals]
      by (simp add: sort_by_confidence_def)
    ultimately show "subseq (filter (\<lambda>s. confidence s = c)
                     (fst (filter_signals_by_risk check m signals pf ps)))
                  (filter (\<lambda>s. confidence s = c) signals)" by simp
  qed
qed

theorem filter_signals_sorted_stable_witness:
  "map ticker
     (fst (filter_signals_by_risk (monitor_check no_prices) () three_signals
             sample_portfolio core_and_one))
     = [''MSFT'', ''AAPL'', ''GOOGL'']
   \<and> subseq (filter (\<lambda>s. confidence s = 60 / 100)
               (fst (filter_signals_by_risk (monitor_check no_prices) () three_signals
                       sample_portfolio core_and_one)))
             (filter (\<lambda>s. confidence s = 60 / 100) three_signals)"
  using filter_signals_sorted_stable
          [of "monitor_check no_prices" "()" three_signals sample_portfolio core_and_one]
  by (simp add: filter_eval)

text \<open>
  Claim C3, as stated, with the difference taken in the integers as Python takes it: the
  filter returns the empty list when at least \<^verbatim>\<open>MAX_POSITIONS\<close> active positions are
  held, and never more than \<^verbatim>\<open>MAX_POSITIONS\<close> minus the active count. The second half
  fails with six active positions: the result is empty, and the bound is -1.
\<close>

theorem filter_signals_slot_bound_counterexample:
  "length (momentum_positions six_active) = 6
   \<and> fst (filter_signals_by_risk (monitor_check no_prices) () three_signals
            sample_portfolio six_active) = []
   \<and> \<not> int (length (fst (filter_signals_by_risk (monitor_check no_prices) ()
                             three_signals sample_portfolio six_active)))
         \<le> int MAX_POSITIONS - int (length (momentum_positions six_active))"
  by (simp add: filter_eval)

text \<open>
  Claim C3, amended. When at least \<^verbatim>\<open>MAX_POSITIONS\<close> active (non-defensive) positions are
  held the filter returns the empty list at once, leaving the signal list and the monitor
  as they were; and in every case the number of approved signals is at most
  \<^verbatim>\<open>max(0, MAX_POSITIONS - active count)\<close>.
\<close>

theorem filter_signals_slot_bound:
  "(MAX_POSITIONS \<le> length (momentum_positions ps) \<longrightarrow>
      filter_signals_by_risk check m signals pf ps = ([], signals, m))
   \<and> int (length (fst (filter_signals_by_risk check m signals pf ps)))
        \<le> max 0 (int MAX_POSITIONS - int (length (momentum_positions ps)))"
proof (cases "MAX_POSITIONS \<le> length (momentum_positions ps)")
  case True
  then show ?thesis by (simp add: filter_cap_reached)
next
  case False
  then have lt: "length (momentum_positions ps) < MAX_POSITIONS" by simp
  have "int (length (fst (approve_loop (\<lambda>st s. check st s ps (portfolio_value pf))
            (int MAX_POSITIONS - int (length (momentum_positions ps))) m
            (sort_by_confidence signals) [])))
          \<le> max (int MAX_POSITIONS - int (length (momentum_positions ps))) (int (length ([]::Signal list)))"
    by (rule approve_loop_length)
  with lt show ?thesis by (simp add: filter_below_cap [OF lt])
qed

theorem filter_signals_slot_bound_witness:
  "MAX_POSITIONS \<le> length (momentum_positions six_active)
   \<and> filter_signals_by_risk (monitor_check no_prices) () three_signals sample_portfolio
        six_active = ([], three_signals, ())
   \<and> int (length (fst (filter_signals_by_risk (monitor_check no_prices) () three_signals
                          sample_portfolio core_and_one))) \<le> 4"
  using filter_signals_slot_bound
          [of six_active "monitor_check no_prices" "()" three_signals sample_portfolio]
        filter_signals_slot_bound
          [of core_and_one "monitor_check no_prices" "()" three_signals sample_portfolio]
  by (simp add: filter_eval)

text \<open>
  Claim C10. The call changes its caller's list. With fewer than five active positions
  the list the caller passed is, after the call, a permutation of what it was, in order
  of non-increasing confidence with equal confidences in their old order: it has been
  sorted in place. With the cap reached the list is returned from untouched.
\<close>

theorem filter_signals_sorts_in_place:
  "(length (momentum_positions ps) < MAX_POSITIONS \<longrightarrow>
      mset (fst (snd (filter_signals_by_risk check m signals pf ps))) = mset signals
      \<and> sorted_wrt (\<lambda>a b. confidence b \<le> confidence a)
           (fst (snd (filter_signals_by_risk check m signals pf ps)))
      \<and> (\<forall>c. filter (\<lambda>s. confidence s = c)
                 (fst (snd (filter_signals_by_risk check m signals pf ps)))
               = filter (\<lambda>s. confidence s = c) signals))
   \<and> (MAX_POSITIONS \<le> length (momentum_positions ps) \<longrightarrow>
        fst (snd (filter_signals_by_risk check m signals pf ps)) = signals)"
proof (intro conjI impI allI)
  assume lt: "length (momentum_positions ps) < MAX_POSITIONS"
  show "mset (fst (snd (filter_signals_by_risk check m signals pf ps))) = mset signals"
    by (simp add: filter_below_cap [OF lt] sort_by_confidence_def)
  show "sorted_wrt (\<lambda>a b. confidence b \<le> confidence a)
           (fst (snd (filter_signals_by_risk check m signals pf ps)))"
    by (simp add: filter_below_cap [OF lt] sort_by_confidence_sorted)
  fix c
  show "filter (\<lambda>s. confidence s = c)
                 (fst (snd (filter_signals_by_risk check m signals pf ps)))
               = filter (\<lambda>s. confidence s = c) signals"
    using sort_key_stable [of "\<lambda>s. - confidence s" "- c" signals]
    by (simp add: filter_below_cap [OF lt] sort_by_confidence_def)
next
  assume "MAX_POSITIONS \<le> length (momentum_positions ps)"
  then show "fst (snd (filter_signals_by_risk check m signals pf ps)) = signals"
    by (simp add: filter_cap_reached)
qed

theorem filter_signals_sorts_in_place_witness:
  "length (momentum_positions core_and_one) < MAX_POSITIONS
   \<and> map ticker three_signals = [''AAPL'', ''MSFT'', ''GOOGL'']
   \<and> map ticker (fst (snd (filter_signals_by_risk (monitor_check no_prices) ()
                              three_signals sample_portfolio core_and_one)))
        = [''MSFT'', ''AAPL'', ''GOOGL'']
   \<and> MAX_POSITIONS \<le> length (momentum_positions six_active)
   \<and> fst (snd (filter_signals_by_risk (monitor_check no_prices) () three_signals
                  sample_portfolio six_active)) = three_signals"
  using filter_signals_sorts_in_place
          [of core_and_one "monitor_check no_prices" "()" three_signals sample_portfolio]
        filter_signals_sorts_in_place
          [of six_active "monitor_check no_prices" "()" three_signals sample_portfolio]
  by (simp add: filter_eval)

section \<open>Properties of position sizing\<close>

lemma band_bounds: "3 / 100 \<le> band k \<and> band k \<le> 15 / 100"
  by (simp add: band_def SIZER_MIN_POSITION_SIZE_PCT_def SIZER_MAX_POSITION_SIZE_PCT_def)

lemma position_size_shape:
  assumes "PositionSizer_calculate_position_size sz signal portfolio = Inr v"
  shows "\<exists>slp tpp.
           dec_div \<bar>entry_price signal - py_or (stop_loss signal) (entry_price signal * (97 / 100))\<bar>
             (entry_price signal) = Inr slp
         \<and> dec_div \<bar>py_or (take_profit signal) (entry_price signal * (108 / 100)) - entry_price signal\<bar>
             (entry_price signal) = Inr tpp
         \<and> slp \<noteq> 0
         \<and> v = min (portfolio_value portfolio * band (calculate_kelly_fraction sz (confidence signal) slp tpp))
                   (cash portfolio * (95 / 100))"
proof -
  let ?e = "entry_price signal"
  from assms obtain slp where 1:
    "dec_div \<bar>?e - py_or (stop_loss signal) (?e * (97 / 100))\<bar> ?e = Inr slp"
    unfolding PositionSizer_calculate_position_size_def Let_def
    by (cases "dec_div \<bar>?e - py_or (stop_loss signal) (?e * (97 / 100))\<bar> ?e") simp_all
  from assms 1 obtain tpp where 2:
    "dec_div \<bar>py_or (take_profit signal) (?e * (108 / 100)) - ?e\<bar> ?e = Inr tpp"
    unfolding PositionSizer_calculate_position_size_def Let_def
    by (cases "dec_div \<bar>py_or (take_profit signal) (?e * (108 / 100)) - ?e\<bar> ?e") simp_all
  let ?pos = "portfolio_value portfolio * band (calculate_kelly_fraction sz (confidence signal) slp tpp)"
  let ?ma = "cash portfolio * (95 / 100)"
  have 3: "slp \<noteq> 0"
    using assms 1 2
    unfolding PositionSizer_calculate_position_size_def Let_def
    by (auto simp: dec_div_def split: sum.splits if_splits)
  have "v = (if ?ma < ?pos then ?ma else ?pos)"
    using assms 1 2
    unfolding PositionSizer_calculate_position_size_def Let_def band_def
    by (simp split: sum.splits if_splits)
  then have "v = min ?pos ?ma" by (simp add: min_def)
  with 1 2 3 show ?thesis by blast
qed


lemma position_size_returns:
  assumes "Portfolio_valid portfolio" and "entry_price signal \<noteq> 0"
    and "py_or (stop_loss signal) (entry_price signal * (97 / 100)) \<noteq> entry_price signal"
  shows "PositionSizer_calculate_position_size sz signal portfolio =
           Inr (min (portfolio_value portfolio
                       * band (calculate_kelly_fraction sz (confidence signal)
                                 (\<bar>entry_price signal
                                     - py_or (stop_loss signal) (entry_price signal * (97 / 100))\<bar>
                                    / entry_price signal)
                                 (\<bar>py_or (take_profit signal) (entry_price signal * (108 / 100))
                                     - entry_price signal\<bar>
                                    / entry_price signal)))
                    (cash portfolio * (95 / 100)))"
proof -
  let ?e = "entry_price signal"
  let ?slp = "\<bar>?e - py_or (stop_loss signal) (?e * (97 / 100))\<bar> / ?e"
  let ?tpp = "\<bar>py_or (take_profit signal) (?e * (108 / 100)) - ?e\<bar> / ?e"
  let ?pos = "portfolio_value portfolio * band (calculate_kelly_fraction sz (confidence signal) ?slp ?tpp)"
  let ?ma = "cash portfolio * (95 / 100)"
  have 1: "dec_div \<bar>?e - py_or (stop_loss signal) (?e * (97 / 100))\<bar> ?e = Inr ?slp"
    using assms(2) by (simp add: dec_div_def)
  have 2: "dec_div \<bar>py_or (take_profit signal) (?e * (108 / 100)) - ?e\<bar> ?e = Inr ?tpp"
    using assms(2) by (simp add: dec_div_def)
  have 3: "?slp \<noteq> 0" using assms(2,3) by simp
  then have 4: "dec_div ?tpp ?slp = Inr (?tpp / ?slp)" by (simp add: dec_div_def)
  have 5: "?ma < ?pos \<Longrightarrow> portfolio_value portfolio \<noteq> 0"
  proof
    assume a: "?ma < ?pos" and "portfolio_value portfolio = 0"
    then have "?ma < 0" by simp
    moreover have "0 \<le> cash portfolio" using assms(1) by (simp add: Portfolio_valid_def)
    ultimately show False by simp
  qed
  have "PositionSizer_calculate_position_size sz signal portfolio
          = Inr (if ?ma < ?pos then ?ma else ?pos)"
    unfolding PositionSizer_calculate_position_size_def Let_def 1 2
    using 4 5 by (simp add: band_def dec_div_def)
  then show ?thesis by (simp add: min_def)
qed

lemma kelly_positive_legs:
  assumes "0 < slp" and "0 < tpp"
  shows "band (calculate_kelly_fraction sz conf slp tpp)
           = spec_fraction (win_rate sz) (win_loss_ratio sz) conf (Some slp) (Some tpp)"
proof -
  define k where
    "k = (conf * win_rate sz * (tpp / slp) - (1 - conf * win_rate sz)) / (tpp / slp)"
  have b: "0 < tpp / slp" using assms by simp
  have half: "max (x * (1 / 2)) 0 = max x 0 * (1 / 2)" for x :: rat
    by (simp add: max_def)
  have code: "calculate_kelly_fraction sz conf slp tpp = max (k * (1 / 2)) 0"
    unfolding calculate_kelly_fraction_def Let_def KELLY_FRACTION_def k_def
    using assms(1) b by (simp only: if_True)
  have nz: "slp \<noteq> 0" "tpp \<noteq> 0" using assms by simp_all
  have spec: "spec_fraction (win_rate sz) (win_loss_ratio sz) conf (Some slp) (Some tpp)
                = min (max (max k 0 * (1 / 2)) (3 / 100)) (15 / 100)"
    unfolding spec_fraction_def spec_odds_def Let_def k_def
    using nz by (simp only: prod.case option.case if_False simp_thms)
  show ?thesis
    unfolding band_def code spec half
      SIZER_MIN_POSITION_SIZE_PCT_def SIZER_MAX_POSITION_SIZE_PCT_def
    by (rule refl)
qed

lemma kelly_zero_take_profit:
  assumes "0 < slp"
  shows "band (calculate_kelly_fraction sz conf slp 0) = 3 / 100"
  using assms
  by (simp add: band_def calculate_kelly_fraction_def Let_def KELLY_FRACTION_def
        SIZER_MIN_POSITION_SIZE_PCT_def SIZER_MAX_POSITION_SIZE_PCT_def)


lemma floor_numeral_quotient:
  "\<lfloor>(numeral a :: rat) / numeral b\<rfloor> = numeral a div numeral b"
  using floor_divide_of_int_eq [of "numeral a" "numeral b", where ?'a = rat] by simp

lemmas sizing_eval = floor_numeral_quotient
  PositionSizer_calculate_quantity_def PositionSizer_calculate_position_size_def
  calculate_kelly_fraction_def get_position_sizer_def PositionSizer_init_def py_or_def
  dec_div_def py_int_def momentum_signal_def sample_portfolio_def low_buying_power_def
  stop_only_signal_def flat_target_signal_def zero_target_signal_def
  DEFAULT_WIN_RATE_def DEFAULT_AVG_WIN_def DEFAULT_AVG_LOSS_def KELLY_FRACTION_def
  SIZER_MIN_POSITION_SIZE_PCT_def SIZER_MAX_POSITION_SIZE_PCT_def Let_def

text \<open>
  Claim C4, as stated: the fraction of dynamic sizing is the specification's Kelly
  computation, whose odds fall back to the historical win/loss ratio when either leg is
  absent or zero. Two signals of the default sizer on the fixture portfolio refute it.
  A signal with a 5% stop-loss and no take-profit is sized at 300 dollars by the code,
  which puts the default 8% target in the place of the missing leg, and at 960.9375 by
  the specification's formula. A signal whose take-profit equals its entry price (a zero
  leg) is sized at 300 by the code, whose Kelly fraction is then 0, and at 1500 by the
  specification's formula.
\<close>

theorem kelly_sizing_counterexample:
  "PositionSizer_calculate_position_size get_position_sizer stop_only_signal sample_portfolio
     = Inr 300
   \<and> spec_dollar_size (portfolio_value sample_portfolio) (cash sample_portfolio)
        (spec_fraction (win_rate get_position_sizer) (win_loss_ratio get_position_sizer)
           (confidence stop_only_signal)
           (leg_pct (entry_price stop_only_signal) (stop_loss stop_only_signal))
           (leg_pct (entry_price stop_only_signal) (take_profit stop_only_signal)))
       = 15375 / 16
   \<and> PositionSizer_calculate_position_size get_position_sizer flat_target_signal
        sample_portfolio = Inr 300
   \<and> spec_dollar_size (portfolio_value sample_portfolio) (cash sample_portfolio)
        (spec_fraction (win_rate get_position_sizer) (win_loss_ratio get_position_sizer)
           (confidence flat_target_signal)
           (leg_pct (entry_price flat_target_signal) (stop_loss flat_target_signal))
           (leg_pct (entry_price flat_target_signal) (take_profit flat_target_signal)))
       = 1500"
  by (simp add: sizing_eval spec_dollar_size_def spec_fraction_def spec_odds_def leg_pct_def)


text \<open>
  Claim C4, amended. For a signal with a positive entry price on a valid portfolio, the
  legs are the signal's stop-loss and take-profit prices, or, where one is absent or zero,
  the defaults 0.97 and 1.08 times the entry price (not the historical ratio). If the
  stop-loss leg differs from the entry price, the dollar size is portfolio value times
  the fraction, capped at 95% of the cash, where the fraction is the specification's
  Kelly computation on those two percentage legs (p = confidence times win rate,
  q = 1 - p, b = take-profit percentage over stop-loss percentage, raw fraction
  (p b - q) / b clamped at 0, halved, clamped into 3% to 15%), except that a take-profit
  equal to the entry price gives the 3% minimum. For confidence 0.75, win rate 0.55,
  stop 3% and target 8% the Kelly fraction is 0.09609375 = 123/1280, by the code and by
  the formula.
\<close>

theorem kelly_sizing_as_coded:
  assumes "Portfolio_valid portfolio" and "0 < entry_price signal"
    and "py_or (stop_loss signal) (entry_price signal * (97 / 100)) \<noteq> entry_price signal"
  shows "PositionSizer_calculate_position_size sz signal portfolio =
           Inr (spec_dollar_size (portfolio_value portfolio) (cash portfolio)
                  (if py_or (take_profit signal) (entry_price signal * (108 / 100))
                        = entry_price signal
                   then 3 / 100
                   else spec_fraction (win_rate sz) (win_loss_ratio sz) (confidence signal)
                          (leg_pct (entry_price signal)
                             (Some (py_or (stop_loss signal) (entry_price signal * (97 / 100)))))
                          (leg_pct (entry_price signal)
                             (Some (py_or (take_profit signal)
                                      (entry_price signal * (108 / 100)))))))
         \<and> calculate_kelly_fraction get_position_sizer (75 / 100) (3 / 100) (8 / 100)
             = 123 / 1280
         \<and> spec_fraction (55 / 100) (8 / 3) (75 / 100) (Some (3 / 100)) (Some (8 / 100))
             = 123 / 1280"
proof (intro conjI)
  let ?e = "entry_price signal"
  let ?sl = "py_or (stop_loss signal) (?e * (97 / 100))"
  let ?tp = "py_or (take_profit signal) (?e * (108 / 100))"
  let ?slp = "\<bar>?e - ?sl\<bar> / ?e"
  let ?tpp = "\<bar>?tp - ?e\<bar> / ?e"
  have e: "?e \<noteq> 0" using assms(2) by simp
  have slp: "0 < ?slp" using assms(2,3) by simp
  have legs: "leg_pct ?e (Some ?sl) = Some ?slp" "leg_pct ?e (Some ?tp) = Some ?tpp"
    by (simp_all add: leg_pct_def abs_minus_commute)
  have frac: "band (calculate_kelly_fraction sz (confidence signal) ?slp ?tpp)
          = (if ?tp = ?e then 3 / 100
             else spec_fraction (win_rate sz) (win_loss_ratio sz) (confidence signal)
                    (Some ?slp) (Some ?tpp))"
  proof (cases "?tp = ?e")
    case True
    then have z: "?tpp = 0" by simp
    have "band (calculate_kelly_fraction sz (confidence signal) ?slp 0) = 3 / 100"
      using slp by (rule kelly_zero_take_profit)
    with True z show ?thesis by simp
  next
    case False
    then have "0 < ?tpp" using assms(2) by simp
    with slp have "band (calculate_kelly_fraction sz (confidence signal) ?slp ?tpp)
          = spec_fraction (win_rate sz) (win_loss_ratio sz) (confidence signal)
              (Some ?slp) (Some ?tpp)"
      by (rule kelly_positive_legs)
    with False show ?thesis by simp
  qed
  show "PositionSizer_calculate_position_size sz signal portfolio =
           Inr (spec_dollar_size (portfolio_value portfolio) (cash portfolio)
                  (if ?tp = ?e then 3 / 100
                   else spec_fraction (win_rate sz) (win_loss_ratio sz) (confidence signal)
                          (leg_pct ?e (Some ?sl)) (leg_pct ?e (Some ?tp))))"
    unfolding position_size_returns [OF assms(1) e assms(3)] frac legs spec_dollar_size_def
    by (rule refl)
  show "calculate_kelly_fraction get_position_sizer (75 / 100) (3 / 100) (8 / 100) = 123 / 1280"
    by (simp add: sizing_eval)
  show "spec_fraction (55 / 100) (8 / 3) (75 / 100) (Some (3 / 100)) (Some (8 / 100)) = 123 / 1280"
    by (simp add: spec_fraction_def spec_odds_def Let_def)
qed

theorem kelly_sizing_as_coded_witness:
  "Portfolio_valid sample_portfolio
   \<and> PositionSizer_calculate_position_size get_position_sizer
        (momentum_signal ''AAPL'' 150 (75 / 100)) sample_portfolio = Inr (15375 / 16)
   \<and> PositionSizer_calculate_position_size get_position_sizer flat_target_signal
        sample_portfolio = Inr 300"
  using kelly_sizing_as_coded
          [of sample_portfolio "momentum_signal ''AAPL'' 150 (75 / 100)" get_position_sizer]
        kelly_sizing_as_coded [of sample_portfolio flat_target_signal get_position_sizer]
  by (simp add: sizing_eval Portfolio_valid_def)

text \<open>
  The sizer caps the dollar value at 15% of the portfolio value and at 95% of the cash.
  Where that value affords one share at a positive entry price, the whole-share quantity
  stays under both caps; only the floor of one share can take an order above them.
\<close>

lemma sized_position_bounded_without_floor:
  assumes "PositionSizer_calculate_position_size sz signal portfolio = Inr v"
    and "0 < entry_price signal" and "entry_price signal \<le> v"
  shows "\<exists>qty. PositionSizer_calculate_quantity sz signal portfolio = Inr qty
           \<and> 1 \<le> qty
           \<and> qty * entry_price signal \<le> portfolio_value portfolio * (15 / 100)
           \<and> qty * entry_price signal \<le> cash portfolio * (95 / 100)"
proof -
  let ?e = "entry_price signal"
  let ?q = "of_int \<lfloor>v / ?e\<rfloor> :: rat"
  from position_size_shape [OF assms(1)] obtain slp tpp where
    v: "v = min (portfolio_value portfolio
                   * band (calculate_kelly_fraction sz (confidence signal) slp tpp))
                (cash portfolio * (95 / 100))"
    by blast
  let ?pct = "band (calculate_kelly_fraction sz (confidence signal) slp tpp)"
  have one: "1 \<le> v / ?e" using assms(2,3) by simp
  then have q1: "1 \<le> ?q" by simp
  have "0 \<le> v / ?e" using one by simp
  then have pi: "py_int (v / ?e) = \<lfloor>v / ?e\<rfloor>" by (simp add: py_int_def)
  have qty: "PositionSizer_calculate_quantity sz signal portfolio = Inr ?q"
    using assms(1,2) q1 by (simp add: PositionSizer_calculate_quantity_def dec_div_def pi Let_def)
  have "?q \<le> v / ?e" by (rule of_int_floor_le)
  then have qe: "?q * ?e \<le> v" by (simp only: pos_le_divide_eq [OF assms(2)])
  have vpos: "0 < v" using assms(2,3) by simp
  have vle: "v \<le> portfolio_value portfolio * ?pct" and vcash: "v \<le> cash portfolio * (95 / 100)"
    using v by simp_all
  have pct: "3 / 100 \<le> ?pct" "?pct \<le> 15 / 100" using band_bounds by simp_all
  have "0 < portfolio_value portfolio * ?pct" using vpos vle by simp
  then have "0 < portfolio_value portfolio"
    using pct(1) by (simp add: zero_less_mult_iff)
  then have "portfolio_value portfolio * ?pct \<le> portfolio_value portfolio * (15 / 100)"
    using pct(2) by simp
  with vle qe have "?q * ?e \<le> portfolio_value portfolio * (15 / 100)" by simp
  moreover from vcash qe have "?q * ?e \<le> cash portfolio * (95 / 100)" by simp
  ultimately show ?thesis using qty q1 by blast
qed

text \<open>
  Claim C2 at the floor of one share. For every signal and portfolio, quantity times
  entry price is to be at most the buying power and at most 15% of the portfolio value,
  also when the floor of one share applies. On the fixture portfolio (value 10000, cash
  and buying power 5000) the sizer values a 500000-dollar share at 960.9375 dollars,
  under its caps, and \<^verbatim>\<open>calculate_quantity\<close> then raises the quantity from 0 to one
  share: 500000 dollars, above the buying power, above 15% of the portfolio value, and
  above the 1000 dollars that the test of the repository for this very input allows
  (\<^verbatim>\<open>qty == 0 or qty * price <= 1000\<close>). The buying power itself is never read by the
  sizer: with buying power 500 beside cash 5000, a 150-dollar share is sized at six
  shares, 900 dollars.
\<close>

theorem sized_position_exceeds_limits:
  "PositionSizer_calculate_position_size get_position_sizer
     (momentum_signal ''BRK.A'' 500000 (75 / 100)) sample_portfolio = Inr (15375 / 16)
   \<and> PositionSizer_calculate_quantity get_position_sizer
        (momentum_signal ''BRK.A'' 500000 (75 / 100)) sample_portfolio = Inr 1
   \<and> calculate_position_size get_position_sizer
        (momentum_signal ''BRK.A'' 500000 (75 / 100)) sample_portfolio = Inr 1
   \<and> \<not> 1 * entry_price (momentum_signal ''BRK.A'' 500000 (75 / 100))
         \<le> buying_power sample_portfolio
   \<and> \<not> 1 * entry_price (momentum_signal ''BRK.A'' 500000 (75 / 100))
         \<le> portfolio_value sample_portfolio * (15 / 100)
   \<and> \<not> ((1::rat) = 0
          \<or> 1 * entry_price (momentum_signal ''BRK.A'' 500000 (75 / 100)) \<le> 1000)
   \<and> PositionSizer_calculate_quantity get_position_sizer
        (momentum_signal ''AAPL'' 150 (75 / 100)) low_buying_power = Inr 6
   \<and> \<not> 6 * entry_price (momentum_signal ''AAPL'' 150 (75 / 100))
         \<le> buying_power low_buying_power"
  by (simp add: sizing_eval calculate_position_size_def)

section \<open>Properties of signal validation\<close>

lemmas validate_eval =
  validate_signal_risk_def calculate_position_size_def truthy_def

lemma validate_signal_risk_rejects:
  assumes "entry_price signal \<le> 0
           \<or> (truthy (stop_loss signal) \<and> entry_price signal \<le> the (stop_loss signal))
           \<or> (truthy (take_profit signal) \<and> the (take_profit signal) \<le> entry_price signal)"
  shows "\<exists>r. validate_signal_risk sz signal portfolio = Inr (False, r)"
  using assms by (auto simp: validate_signal_risk_def)


text \<open>
  Claim C8 at a take-profit of zero. The checks of \<^verbatim>\<open>validate_signal_risk\<close> test
  \<^verbatim>\<open>signal.take_profit and ...\<close>, and a zero Decimal is falsy: a signal that carries
  the take-profit 0 below its entry price of 150 passes validation on the fixture
  portfolio, where the claim has it rejected.
\<close>

theorem validate_accepts_zero_take_profit:
  "take_profit zero_target_signal = Some 0
   \<and> the (take_profit zero_target_signal) \<le> entry_price zero_target_signal
   \<and> validate_signal_risk get_position_sizer zero_target_signal sample_portfolio
       = Inr (True, PassesAllRiskChecks)"
  by (simp add: validate_eval sizing_eval)


section \<open>Properties of the correlation monitor\<close>

lemma correlation_loop_unevaluable:
  "list_all (pair_unevaluable env new_prices) ps \<Longrightarrow>
     correlation_loop env new_prices ps = (True, None)"
  by (induction ps)
     (auto simp: pair_unevaluable_def split: fetch_result.splits option.splits float_val.splits)

lemma check_correlation_unevaluable:
  "cannot_evaluate env t ps \<Longrightarrow> check_correlation env t ps = (True, None)"
  by (auto simp: cannot_evaluate_def check_correlation_def correlation_loop_unevaluable
           split: fetch_result.splits)

lemma check_sector_concentration_cases:
  "check_sector_concentration t v ps pv = (True, None)
   \<or> (\<exists>r. check_sector_concentration t v ps pv = (False, Some r))"
  by (simp add: check_sector_concentration_def Let_def split: option.splits)

lemma approval_reason_None:
  "fst (check_new_signal env s ps pv) \<Longrightarrow> snd (check_new_signal env s ps pv) = None"
  by (auto simp: check_new_signal_def split: prod.splits bool.splits if_splits)

lemmas monitor_eval =
  check_new_signal_def check_sector_concentration_def check_correlation_def
  calculate_correlation_def aligned_def sector_of_def SECTOR_MAP_def
  MAX_SECTOR_ALLOCATION_def MAX_CORRELATION_def MIN_POSITIONS_FOR_CORRELATION_def
  cannot_evaluate_def pair_unevaluable_def daily_closes_def short_history_def
  little_overlap_def full_history_def two_held_def tech_heavy_def held_def
  momentum_signal_def no_prices_def Let_def comp_def

text \<open>
  Claim C5, as stated: a candidate whose correlation cannot be evaluated is approved by
  \<^verbatim>\<open>check_new_signal\<close>, with a reason that tells the fail-open approval from a clean
  one. With 29 observations the check cannot be evaluated, with 30 observations and a
  coefficient of 0.1 it can, and both calls return the same pair: approved, reason
  \<^verbatim>\<open>None\<close>. And a candidate without any price history is still rejected when the sector
  check fails, which runs first.
\<close>

theorem correlation_fail_open_counterexample:
  "cannot_evaluate short_history ''AAPL'' two_held
   \<and> check_new_signal short_history (momentum_signal ''AAPL'' 150 (75 / 100)) two_held 10000
       = (True, None)
   \<and> \<not> cannot_evaluate full_history ''AAPL'' two_held
   \<and> check_new_signal full_history (momentum_signal ''AAPL'' 150 (75 / 100)) two_held 10000
       = (True, None)
   \<and> cannot_evaluate no_prices ''MSFT'' tech_heavy
   \<and> check_new_signal no_prices (momentum_signal ''MSFT'' 350 (75 / 100)) tech_heavy 10000
       = (False, Some (SectorConcentration ''Technology'' (37 / 40)))"
  by (simp add: monitor_eval)

text \<open>
  Claim C5, amended. When the correlation of a candidate cannot be evaluated,
  \<^verbatim>\<open>_check_correlation\<close> approves it, and \<^verbatim>\<open>check_new_signal\<close> approves it whenever the
  sector check passes. Every approval of \<^verbatim>\<open>check_new_signal\<close> carries the reason
  \<^verbatim>\<open>None\<close>, so the fail-open approval returns the same pair as a clean approval.
\<close>

theorem correlation_check_fails_open:
  "(cannot_evaluate env (ticker s) ps \<longrightarrow>
      check_correlation env (ticker s) ps = (True, None))
   \<and> (cannot_evaluate env (ticker s) ps
        \<and> fst (check_sector_concentration (ticker s) (entry_price s * 10) ps pv) \<longrightarrow>
        check_new_signal env s ps pv = (True, None))
   \<and> (fst (check_new_signal env s ps pv) \<longrightarrow> snd (check_new_signal env s ps pv) = None)"
proof (intro conjI impI)
  assume "cannot_evaluate env (ticker s) ps"
  then show "check_correlation env (ticker s) ps = (True, None)"
    by (rule check_correlation_unevaluable)
next
  assume a: "cannot_evaluate env (ticker s) ps
             \<and> fst (check_sector_concentration (ticker s) (entry_price s * 10) ps pv)"
  then have c: "check_correlation env (ticker s) ps = (True, None)"
    by (simp add: check_correlation_unevaluable)
  from a check_sector_concentration_cases [of "ticker s" "entry_price s * 10" ps pv]
  have "check_sector_concentration (ticker s) (entry_price s * 10) ps pv = (True, None)"
    by auto
  with c show "check_new_signal env s ps pv = (True, None)"
    by (simp add: check_new_signal_def)
next
  assume "fst (check_new_signal env s ps pv)"
  then show "snd (check_new_signal env s ps pv) = None"
    by (rule approval_reason_None)
qed

theorem correlation_check_fails_open_witness:
  "cannot_evaluate little_overlap ''AAPL'' two_held
   \<and> fst (check_sector_concentration ''AAPL'' (150 * 10) two_held 10000)
   \<and> check_new_signal little_overlap (momentum_signal ''AAPL'' 150 (75 / 100)) two_held 10000
       = (True, None)"
  using correlation_check_fails_open
          [of little_overlap "momentum_signal ''AAPL'' 150 (75 / 100)" two_held 10000]
  by (simp add: monitor_eval)


section \<open>Properties of the orchestration cycle\<close>

lemma lower_BUY: "lower ''BUY'' = ''buy''"
  by (simp add: lower_def char_of_def bit_0)

lemmas cycle_eval =
  daily_trading_loop_def entry_orders_def losing_day_def rebalance_buy_def
  calculate_position_size_def quantize2_def round_half_even_def
  check_daily_loss_limit_def DAILY_LOSS_LIMIT_PCT_def lower_BUY

text \<open>
  Claim C1 on a losing day. The day's realized loss of 500 on a portfolio of 10000 is
  past the limit, so \<^verbatim>\<open>check_daily_loss_limit\<close> answers \<^verbatim>\<open>True\<close>; yet the cycle submits
  the rebalancing order and the momentum entry. \<^verbatim>\<open>daily_trading_loop\<close> takes no daily
  P&L and never calls \<^verbatim>\<open>check_daily_loss_limit\<close>.
\<close>

theorem circuit_breaker_not_consulted:
  "check_daily_loss_limit (- 500) (portfolio_value (account losing_day)) = Inr True
   \<and> daily_trading_loop False losing_day
       = Completed [SubmitOrder ''VTI'' 2 ''buy'' None None,
                    SubmitOrder ''AAPL'' 6 ''buy'' None None,
                    AnalyzePerformance]
   \<and> entry_orders (daily_trading_loop False losing_day)
       = [SubmitOrder ''VTI'' 2 ''buy'' None None, SubmitOrder ''AAPL'' 6 ''buy'' None None]"
  by (simp add: cycle_eval sizing_eval filter_eval)


end
